theory Spec2Isabelle
  imports Main "HOL-Library.Word"
begin

section \<open>HtmlLengthService: the length of an HTML string, in words\<close>

text \<open>
  A shallow embedding of \<^verbatim>\<open>core/templates/services/html-length.service.ts\<close>.
  The service reads two weight tables, asks a sanitizer and a DOM parser for the document
  of its input, selects elements of the document's body and adds up one weight per
  selected element. The sanitizer and the parser are injected collaborators and enter the
  model as functions; the logger is the list of the messages it was given. What the
  service takes from the platform (strings, \<^verbatim>\<open>trim\<close>, \<^verbatim>\<open>split\<close>,
  \<^verbatim>\<open>toLowerCase\<close>, \<^verbatim>\<open>textContent\<close>, \<^verbatim>\<open>querySelectorAll\<close>)
  is modelled after ECMAScript and the DOM standard, on the part of them the service uses.
\<close>

subsection \<open>Strings\<close>

text \<open>
  A JavaScript string is a sequence of UTF-16 code units, and \<^verbatim>\<open>length\<close> counts
  code units. \<open>js\<close> writes an ASCII literal as such a sequence.
\<close>

type_synonym jschar = "16 word"
type_synonym jsstring = "jschar list"

definition js :: "string \<Rightarrow> jsstring" where
  "js s = map of_char s"

definition space :: jschar where
  "space = 0x20"

text \<open>
  The code units \<^verbatim>\<open>trim\<close> removes: ECMAScript's WhiteSpace (TAB, VT, FF, SP, NBSP,
  ZWNBSP and the space separators of Unicode) and LineTerminator (LF, CR, LS, PS).
\<close>

definition isWhiteSpace :: "jschar \<Rightarrow> bool" where
  "isWhiteSpace c =
     (c = 0x09 \<or> c = 0x0A \<or> c = 0x0B \<or> c = 0x0C \<or> c = 0x0D \<or> c = 0x20 \<or> c = 0xA0
      \<or> c = 0x1680 \<or> (0x2000 \<le> c \<and> c \<le> 0x200A) \<or> c = 0x2028 \<or> c = 0x2029
      \<or> c = 0x202F \<or> c = 0x205F \<or> c = 0x3000 \<or> c = 0xFEFF)"

definition trim :: "jsstring \<Rightarrow> jsstring" where
  "trim s = rev (dropWhile isWhiteSpace (rev (dropWhile isWhiteSpace s)))"

text \<open>
  \<^verbatim>\<open>s.split(' ')\<close>: the substrings between the occurrences of the single space, empty
  ones included; the empty string gives one empty substring.
\<close>

fun split_space :: "jsstring \<Rightarrow> jsstring list" where
  "split_space [] = [[]]"
| "split_space (c # cs) =
     (if c = space then [] # split_space cs
      else (case split_space cs of
              [] \<Rightarrow> [[c]]
            | w # ws \<Rightarrow> (c # w) # ws))"

text \<open>
  \<^verbatim>\<open>toLowerCase\<close> on the code units a tag name of the HTML parser is made of: the
  letters A to Z are mapped to a to z, every other code unit is kept. (The case mapping of
  letters outside ASCII is not modelled. It yields no letter of the tag names that the
  service compares with, so it decides none of the comparisons.)
\<close>

definition toLowerCaseUnit :: "jschar \<Rightarrow> jschar" where
  "toLowerCaseUnit c = (if 0x41 \<le> c \<and> c \<le> 0x5A then c + 0x20 else c)"

definition toLowerCase :: "jsstring \<Rightarrow> jsstring" where
  "toLowerCase s = map toLowerCaseUnit s"

subsection \<open>The document\<close>

text \<open>
  A node of the parsed document: an element with its tag name (as \<^verbatim>\<open>tagName\<close>
  returns it) and its children, a text node, or a comment.
\<close>

datatype node =
    Element (tagName: jsstring) (childNodes: "node list")
  | Text jsstring
  | Comment jsstring

text \<open>
  \<^verbatim>\<open>textContent\<close> of an element: the data of its descendant text nodes, in tree
  order, put together with nothing in between; comments are left out.
\<close>

fun textContent :: "node \<Rightarrow> jsstring" where
  "textContent (Element t cs) = concat (map textContent cs)"
| "textContent (Text s) = s"
| "textContent (Comment s) = []"

text \<open>The elements of a subtree in document order (depth first, the element before its children).\<close>

fun elementsOf :: "node \<Rightarrow> node list" where
  "elementsOf (Element t cs) = Element t cs # concat (map elementsOf cs)"
| "elementsOf (Text s) = []"
| "elementsOf (Comment s) = []"

text \<open>
  \<^verbatim>\<open>root.querySelectorAll(sel)\<close> for a selector that is a list of type selectors: the
  descendant elements of \<open>root\<close> whose name is in the list, in document order. In an HTML
  document a type selector is compared with the element's name in lower case.
\<close>

definition querySelectorAll :: "jsstring list \<Rightarrow> node \<Rightarrow> node list" where
  "querySelectorAll sel root =
     filter (\<lambda>e. toLowerCase (tagName e) \<in> set sel)
       (concat (map elementsOf (childNodes root)))"

subsection \<open>The service\<close>

datatype error = TypeError

text \<open>
  The fields of the service. \<open>loggerService\<close> holds the messages given to the logger's
  \<^verbatim>\<open>error\<close> so far, the latest last.
\<close>

record HtmlLengthService =
  nonTextTagsWithWeight :: "(jsstring \<times> int) list"
  textTagsWithWeight :: "(jsstring \<times> int) list"
  loggerService :: "jsstring list"

text \<open>
  The collaborators the service does not implement: \<open>sanitize\<close> is the sanitizer in the
  HTML security context, \<open>parseFromString\<close> gives the body of the document that the DOM
  parser builds from a string of type \<^verbatim>\<open>text/html\<close>.
\<close>

record collaborators =
  sanitize :: "jsstring \<Rightarrow> jsstring"
  parseFromString :: "jsstring \<Rightarrow> node"

text \<open>The service as its field initialisers build it, around a logger.\<close>

definition newHtmlLengthService :: "jsstring list \<Rightarrow> HtmlLengthService" where
  "newHtmlLengthService logger =
     \<lparr> nonTextTagsWithWeight =
         [(js ''oppia-noninteractive-math'', 0),
          (js ''oppia-noninteractive-image'', 0)],
       textTagsWithWeight =
         [(js ''a'', 1),
          (js ''collapsible'', 1000),
          (js ''p'', 1),
          (js ''ul'', 1),
          (js ''ol'', 1)],
       loggerService = logger \<rparr>"

text \<open>The selector of \<^verbatim>\<open>computeHtmlLengthInWords\<close>.\<close>

definition selector :: "jsstring list" where
  "selector =
     [js ''p'', js ''ul'', js ''ol'',
      js ''oppia-noninteractive-image'', js ''oppia-noninteractive-math'']"

text \<open>
  \<^verbatim>\<open>table.find(x => x[0] === ltag)[1]\<close> raises a TypeError when no entry has the
  name: the index is applied to \<^verbatim>\<open>undefined\<close>. In \<^verbatim>\<open>textContent || ''\<close> the
  alternative is taken for the empty text content only and changes nothing.
\<close>

definition getWeightForTextNodes :: "HtmlLengthService \<Rightarrow> node \<Rightarrow> error + int" where
  "getWeightForTextNodes this textNode =
     (let content = textContent textNode;
          words = split_space (trim content);
          wordCount = int (length words);
          ltag = toLowerCase (tagName textNode)
      in if ltag = js ''a'' then Inr (int (length content))
         else (case find (\<lambda>x. fst x = ltag) (textTagsWithWeight this) of
                 None \<Rightarrow> Inl TypeError
               | Some x \<Rightarrow> Inr (wordCount * snd x)))"

definition getWeightForNonTextNodes :: "HtmlLengthService \<Rightarrow> node \<Rightarrow> error + int" where
  "getWeightForNonTextNodes this nonTextNode =
     (let ltag = toLowerCase (tagName nonTextNode)
      in (case find (\<lambda>x. fst x = ltag) (nonTextTagsWithWeight this) of
            None \<Rightarrow> Inl TypeError
          | Some x \<Rightarrow> Inr (snd x)))"

text \<open>One turn of the loop over the selected elements: the two guarded additions.\<close>

definition addWeight :: "HtmlLengthService \<Rightarrow> node \<Rightarrow> int \<Rightarrow> error + int" where
  "addWeight this tag totalWeight =
     (let ltag = toLowerCase (tagName tag)
      in (case (if list_ex (\<lambda>item. fst item = ltag) (textTagsWithWeight this)
                then (case getWeightForTextNodes this tag of
                        Inl e \<Rightarrow> Inl e
                      | Inr w \<Rightarrow> Inr (totalWeight + w))
                else Inr totalWeight) of
            Inl e \<Rightarrow> Inl e
          | Inr t \<Rightarrow>
              (if list_ex (\<lambda>item. fst item = ltag) (nonTextTagsWithWeight this)
               then (case getWeightForNonTextNodes this tag of
                       Inl e \<Rightarrow> Inl e
                     | Inr w \<Rightarrow> Inr (t + w))
               else Inr t)))"

fun sumWeights :: "HtmlLengthService \<Rightarrow> node list \<Rightarrow> int \<Rightarrow> error + int" where
  "sumWeights this [] totalWeight = Inr totalWeight"
| "sumWeights this (tag # tagList) totalWeight =
     (case addWeight this tag totalWeight of
        Inl e \<Rightarrow> Inl e
      | Inr t \<Rightarrow> sumWeights this tagList t)"

text \<open>
  The result of a call and the service after it. The only field a call writes is the
  logger's, on the path of the empty string (the one falsy value of the parameter's type).
\<close>

definition computeHtmlLengthInWords ::
  "collaborators \<Rightarrow> HtmlLengthService \<Rightarrow> jsstring \<Rightarrow> (error + int) \<times> HtmlLengthService" where
  "computeHtmlLengthInWords env this htmlString =
     (if htmlString = []
      then (Inr 0,
            this\<lparr>loggerService :=
                   loggerService this @ [js ''Empty string was passed to compute length'']\<rparr>)
      else (let sanitizedHtml = sanitize env htmlString;
                dom = parseFromString env sanitizedHtml;
                tagList = querySelectorAll selector dom
            in (sumWeights this tagList 0, this)))"

subsection \<open>Vocabulary of the properties\<close>

text \<open>
  A text of words separated by single spaces, and what counts as a word here: a
  non-empty string without white space.
\<close>

fun joinWords :: "jsstring list \<Rightarrow> jsstring" where
  "joinWords [] = []"
| "joinWords [w] = w"
| "joinWords (w # v # ws) = w @ space # joinWords (v # ws)"

definition isWord :: "jsstring \<Rightarrow> bool" where
  "isWord w = (w \<noteq> [] \<and> list_all (\<lambda>c. \<not> isWhiteSpace c) w)"

text \<open>
  Collaborators for the concrete runs: a sanitizer that returns its input as it is, and a
  parser that knows one source string, for which it gives a body with the listed children.
\<close>

definition fakeCollaborators :: "jsstring \<Rightarrow> node list \<Rightarrow> collaborators" where
  "fakeCollaborators src children =
     \<lparr> sanitize = (\<lambda>s. s),
       parseFromString = (\<lambda>s. Element (js ''BODY'') (if s = src then children else [])) \<rparr>"

text \<open>The list element of \<^verbatim>\<open><ul><li>one two</li><li>three</li></ul>\<close>.\<close>

definition ulExample :: node where
  "ulExample =
     Element (js ''UL'')
       [Element (js ''LI'') [Text (js ''one two'')],
        Element (js ''LI'') [Text (js ''three'')]]"

text \<open>An image embed followed by a math embed, and a source string for the two.\<close>

definition embedsExample :: "node list" where
  "embedsExample =
     [Element (js ''OPPIA-NONINTERACTIVE-IMAGE'') [],
      Element (js ''OPPIA-NONINTERACTIVE-MATH'') []]"

definition embedsSource :: jsstring where
  "embedsSource =
     js ''<oppia-noninteractive-image></oppia-noninteractive-image>''
     @ js ''<oppia-noninteractive-math></oppia-noninteractive-math>''"

section \<open>Strings and tables: auxiliary facts\<close>

lemmas eval_defs =
  computeHtmlLengthInWords_def fakeCollaborators_def newHtmlLengthService_def js_def
  querySelectorAll_def selector_def toLowerCase_def toLowerCaseUnit_def addWeight_def
  getWeightForTextNodes_def getWeightForNonTextNodes_def trim_def isWhiteSpace_def space_def

lemma isWhiteSpace_space: "isWhiteSpace space"
  by (simp add: isWhiteSpace_def space_def)

lemma split_space_nonempty: "split_space s \<noteq> []"
  by (induction s) (auto split: list.splits)

lemma length_split_space: "1 \<le> length (split_space s)"
  using split_space_nonempty [of s] by (cases "split_space s") auto

lemma split_space_word: "space \<notin> set w \<Longrightarrow> split_space w = [w]"
  by (induction w) auto

lemma split_space_append:
  "space \<notin> set w \<Longrightarrow> split_space (w @ space # rest) = w # split_space rest"
  by (induction w) auto

lemma split_space_joinWords:
  "ws \<noteq> [] \<Longrightarrow> list_all (\<lambda>w. space \<notin> set w) ws \<Longrightarrow> split_space (joinWords ws) = ws"
  by (induction ws rule: joinWords.induct) (auto simp: split_space_word split_space_append)

lemma isWord_no_space: "isWord w \<Longrightarrow> space \<notin> set w"
  using isWhiteSpace_space by (auto simp: isWord_def list_all_iff)

lemma trim_keeps:
  "s \<noteq> [] \<Longrightarrow> \<not> isWhiteSpace (hd s) \<Longrightarrow> \<not> isWhiteSpace (last s) \<Longrightarrow> trim s = s"
proof -
  assume a: "s \<noteq> []" "\<not> isWhiteSpace (hd s)" "\<not> isWhiteSpace (last s)"
  then have front: "dropWhile isWhiteSpace s = s"
    by (simp add: dropWhile_eq_self_iff)
  from a have "dropWhile isWhiteSpace (rev s) = rev s"
    by (simp add: dropWhile_eq_self_iff hd_rev)
  with front show ?thesis
    by (simp add: trim_def)
qed

lemma joinWords_ends:
  "ws \<noteq> [] \<Longrightarrow> list_all isWord ws \<Longrightarrow>
     joinWords ws \<noteq> [] \<and> hd (joinWords ws) = hd (hd ws) \<and> last (joinWords ws) = last (last ws)"
  by (induction ws rule: joinWords.induct) (auto simp: isWord_def)

lemma isWord_ends: "isWord w \<Longrightarrow> \<not> isWhiteSpace (hd w) \<and> \<not> isWhiteSpace (last w)"
  by (cases w) (auto simp: isWord_def list_all_iff)

lemma trim_joinWords:
  assumes "ws \<noteq> []" and "list_all isWord ws"
  shows "trim (joinWords ws) = joinWords ws"
proof -
  from assms have "isWord (hd ws)" and "isWord (last ws)"
    by (auto simp: list_all_iff)
  with joinWords_ends [OF assms] isWord_ends show ?thesis
    by (auto intro: trim_keeps)
qed

lemma words_of_joinWords:
  assumes "ws \<noteq> []" and "list_all isWord ws"
  shows "split_space (trim (joinWords ws)) = ws"
proof -
  from assms(2) have "list_all (\<lambda>w. space \<notin> set w) ws"
    by (auto simp: list_all_iff dest: isWord_no_space)
  with assms(1) show ?thesis
    by (simp add: trim_joinWords [OF assms] split_space_joinWords)
qed

lemma trim_whitespace: "list_all isWhiteSpace s \<Longrightarrow> trim s = []"
  by (auto simp: trim_def list_all_iff dest: set_dropWhileD)

lemma find_guarded:
  "list_ex (\<lambda>item. fst item = k) tbl \<Longrightarrow> \<exists>x. find (\<lambda>x. fst x = k) tbl = Some x \<and> x \<in> set tbl"
  by (induction tbl) auto

lemma find_in_set: "find P tbl = Some x \<Longrightarrow> x \<in> set tbl \<and> P x"
  by (induction tbl) (auto split: if_splits)

lemma newService_fields:
  "textTagsWithWeight (newHtmlLengthService logger) =
     [(js ''a'', 1), (js ''collapsible'', 1000), (js ''p'', 1), (js ''ul'', 1), (js ''ol'', 1)]"
  "nonTextTagsWithWeight (newHtmlLengthService logger) =
     [(js ''oppia-noninteractive-math'', 0), (js ''oppia-noninteractive-image'', 0)]"
  "loggerService (newHtmlLengthService logger) = logger"
  by (simp_all add: newHtmlLengthService_def)

lemma compute_nonempty:
  "htmlString \<noteq> [] \<Longrightarrow>
     computeHtmlLengthInWords env this htmlString =
       (sumWeights this
          (querySelectorAll selector (parseFromString env (sanitize env htmlString))) 0,
        this)"
  by (simp add: computeHtmlLengthInWords_def)

lemma p_weight:
  assumes "toLowerCase t = js ''p''"
  shows "getWeightForTextNodes (newHtmlLengthService logger) (Element t cs) =
           Inr (int (length (split_space (trim (textContent (Element t cs))))) * 1)"
  using assms
  by (simp add: getWeightForTextNodes_def Let_def newService_fields) (simp add: js_def)

lemma p_addWeight:
  assumes "toLowerCase t = js ''p''"
  shows "addWeight (newHtmlLengthService logger) (Element t cs) acc =
           Inr (acc + int (length (split_space (trim (textContent (Element t cs))))) * 1)"
  using assms p_weight [OF assms, of logger cs]
  by (simp add: addWeight_def Let_def newService_fields) (simp add: js_def)

lemma text_lookup_guarded:
  "list_ex (\<lambda>item. fst item = toLowerCase (tagName tag)) (textTagsWithWeight this) \<Longrightarrow>
     \<exists>w. getWeightForTextNodes this tag = Inr w"
  by (auto simp: getWeightForTextNodes_def Let_def dest: find_guarded)

lemma nontext_lookup_guarded:
  "list_ex (\<lambda>item. fst item = toLowerCase (tagName tag)) (nonTextTagsWithWeight this) \<Longrightarrow>
     \<exists>w. getWeightForNonTextNodes this tag = Inr w"
  by (auto simp: getWeightForNonTextNodes_def Let_def dest: find_guarded)

lemma addWeight_returns: "\<exists>t. addWeight this tag acc = Inr t"
proof -
  let ?ltag = "toLowerCase (tagName tag)"
  let ?isText = "list_ex (\<lambda>item. fst item = ?ltag) (textTagsWithWeight this)"
  let ?isNonText = "list_ex (\<lambda>item. fst item = ?ltag) (nonTextTagsWithWeight this)"
  have a: "?isText \<Longrightarrow> \<exists>w. getWeightForTextNodes this tag = Inr w"
    by (rule text_lookup_guarded)
  have b: "?isNonText \<Longrightarrow> \<exists>w. getWeightForNonTextNodes this tag = Inr w"
    by (rule nontext_lookup_guarded)
  show ?thesis
  proof (cases ?isText)
    case True
    with a obtain w where "getWeightForTextNodes this tag = Inr w" by blast
    with True b show ?thesis
      by (cases ?isNonText) (auto simp: addWeight_def Let_def)
  next
    case False
    with b show ?thesis
      by (cases ?isNonText) (auto simp: addWeight_def Let_def)
  qed
qed

lemma sumWeights_returns: "\<exists>n. sumWeights this tagList acc = Inr n"
proof (induction tagList arbitrary: acc)
  case Nil
  show ?case by simp
next
  case (Cons tag tagList)
  obtain t where "addWeight this tag acc = Inr t"
    using addWeight_returns by blast
  with Cons.IH [of t] show ?case by simp
qed

lemma lookup_miss_raises:
  "getWeightForTextNodes (newHtmlLengthService []) (Element (js ''DIV'') []) = Inl TypeError"
  "getWeightForNonTextNodes (newHtmlLengthService []) (Element (js ''DIV'') []) = Inl TypeError"
  by (simp_all add: eval_defs)

lemma addWeight_logger:
  "addWeight (this\<lparr>loggerService := l\<rparr>) tag acc = addWeight this tag acc"
proof -
  have "getWeightForTextNodes (this\<lparr>loggerService := l\<rparr>) tag = getWeightForTextNodes this tag"
    by (simp add: getWeightForTextNodes_def Let_def)
  moreover
  have "getWeightForNonTextNodes (this\<lparr>loggerService := l\<rparr>) tag
          = getWeightForNonTextNodes this tag"
    by (simp add: getWeightForNonTextNodes_def Let_def)
  ultimately show ?thesis
    by (simp add: addWeight_def Let_def split: sum.splits)
qed

lemma sumWeights_logger:
  "sumWeights (this\<lparr>loggerService := l\<rparr>) tagList acc = sumWeights this tagList acc"
  by (induction tagList arbitrary: acc) (simp_all add: addWeight_logger split: sum.splits)

lemma text_weight_nonneg:
  assumes "list_all (\<lambda>x. 0 \<le> snd x) (textTagsWithWeight this)"
    and "getWeightForTextNodes this tag = Inr w"
  shows "0 \<le> w"
proof (cases "toLowerCase (tagName tag) = js ''a''")
  case True
  with assms(2) show ?thesis
    by (auto simp: getWeightForTextNodes_def Let_def)
next
  case False
  with assms(2) obtain x where
    x: "find (\<lambda>x. fst x = toLowerCase (tagName tag)) (textTagsWithWeight this) = Some x"
    and w: "w = int (length (split_space (trim (textContent tag)))) * snd x"
    by (auto simp: getWeightForTextNodes_def Let_def split: option.splits)
  from x have "x \<in> set (textTagsWithWeight this)"
    by (simp add: find_in_set)
  with assms(1) have "0 \<le> snd x"
    by (simp add: list_all_iff)
  with w show ?thesis by simp
qed

lemma nontext_weight_nonneg:
  assumes "list_all (\<lambda>x. 0 \<le> snd x) (nonTextTagsWithWeight this)"
    and "getWeightForNonTextNodes this tag = Inr w"
  shows "0 \<le> w"
proof -
  from assms(2) obtain x where
    x: "find (\<lambda>x. fst x = toLowerCase (tagName tag)) (nonTextTagsWithWeight this) = Some x"
    and w: "w = snd x"
    by (auto simp: getWeightForNonTextNodes_def Let_def split: option.splits)
  from x have "x \<in> set (nonTextTagsWithWeight this)"
    by (simp add: find_in_set)
  with assms(1) w show ?thesis
    by (simp add: list_all_iff)
qed

lemma addWeight_nonneg:
  assumes "list_all (\<lambda>x. 0 \<le> snd x) (textTagsWithWeight this)"
    and "list_all (\<lambda>x. 0 \<le> snd x) (nonTextTagsWithWeight this)"
    and "0 \<le> acc"
    and "addWeight this tag acc = Inr t"
  shows "0 \<le> t"
proof -
  have a: "\<And>w. getWeightForTextNodes this tag = Inr w \<Longrightarrow> 0 \<le> w"
    using assms(1) by (rule text_weight_nonneg)
  have b: "\<And>w. getWeightForNonTextNodes this tag = Inr w \<Longrightarrow> 0 \<le> w"
    using assms(2) by (rule nontext_weight_nonneg)
  from assms(3,4) show ?thesis
    by (auto simp: addWeight_def Let_def split: if_splits sum.splits dest!: a b)
qed

lemma sumWeights_nonneg:
  assumes "list_all (\<lambda>x. 0 \<le> snd x) (textTagsWithWeight this)"
    and "list_all (\<lambda>x. 0 \<le> snd x) (nonTextTagsWithWeight this)"
  shows "0 \<le> acc \<Longrightarrow> sumWeights this tagList acc = Inr n \<Longrightarrow> 0 \<le> n"
proof (induction tagList arbitrary: acc)
  case Nil
  then show ?case by simp
next
  case (Cons tag tagList)
  from Cons.prems(2) obtain t where
    t: "addWeight this tag acc = Inr t" and rest: "sumWeights this tagList t = Inr n"
    by (auto split: sum.splits)
  from assms Cons.prems(1) t have "0 \<le> t"
    by (rule addWeight_nonneg)
  then show ?case
    using rest by (rule Cons.IH)
qed

lemma newService_weights_nonneg:
  "list_all (\<lambda>x. 0 \<le> snd x) (textTagsWithWeight (newHtmlLengthService logger))"
  "list_all (\<lambda>x. 0 \<le> snd x) (nonTextTagsWithWeight (newHtmlLengthService logger))"
  by (simp_all add: newService_fields)

lemma embed_weight:
  assumes "toLowerCase t = js ''oppia-noninteractive-image''
           \<or> toLowerCase t = js ''oppia-noninteractive-math''"
  shows "getWeightForNonTextNodes (newHtmlLengthService logger) (Element t cs) = Inr 0"
  using assms
  by (auto simp: getWeightForNonTextNodes_def Let_def newService_fields)

lemma embed_addWeight:
  assumes "toLowerCase t = js ''oppia-noninteractive-image''
           \<or> toLowerCase t = js ''oppia-noninteractive-math''"
  shows "addWeight (newHtmlLengthService logger) (Element t cs) acc = Inr acc"
proof -
  have "\<not> list_ex (\<lambda>item. fst item = toLowerCase t)
            (textTagsWithWeight (newHtmlLengthService logger))"
    using assms by (auto simp: newService_fields) (simp_all add: js_def)
  moreover
  have "list_ex (\<lambda>item. fst item = toLowerCase t)
          (nonTextTagsWithWeight (newHtmlLengthService logger))"
    using assms by (auto simp: newService_fields)
  ultimately show ?thesis
    using embed_weight [OF assms, of logger cs] by (simp add: addWeight_def Let_def)
qed

section \<open>The properties\<close>

subsection \<open>Anchors\<close>

text \<open>
  C1, as the code has it. For every anchor element, \<open>getWeightForTextNodes\<close> returns the
  number of code units of the element's text content as it is, untrimmed: not the word
  count, and not a multiple of the table weight.
\<close>

theorem anchor_weight_is_text_length:
  "toLowerCase t = js ''a'' \<Longrightarrow>
     getWeightForTextNodes this (Element t cs) = Inr (int (length (textContent (Element t cs))))"
  by (simp add: getWeightForTextNodes_def Let_def)

theorem anchor_weight_is_text_length_witness:
  "toLowerCase (js ''A'') = js ''a''
   \<and> getWeightForTextNodes (newHtmlLengthService [])
        (Element (js ''A'') [Text (js '' hi '')]) = Inr 4"
  using anchor_weight_is_text_length
    [of "js ''A''" "newHtmlLengthService []" "[Text (js '' hi '')]"]
  by (simp add: js_def toLowerCase_def toLowerCaseUnit_def)

text \<open>
  C1 as stated fails twice. The input \<^verbatim>\<open><a>hello</a>\<close> holds one anchor with a
  trimmed text of 5 code units, and \<open>computeHtmlLengthInWords\<close> returns 0: the selector has
  no anchor in it. And for the anchor of \<^verbatim>\<open><a> hi </a>\<close>, whose trimmed text has 2 code
  units, \<open>getWeightForTextNodes\<close> returns 4, the length with the two spaces.
\<close>

theorem anchor_length_counterexample:
  "fst (computeHtmlLengthInWords
          (fakeCollaborators (js ''<a>hello</a>'') [Element (js ''A'') [Text (js ''hello'')]])
          (newHtmlLengthService []) (js ''<a>hello</a>'')) = Inr 0
   \<and> length (trim (textContent (Element (js ''A'') [Text (js ''hello'')]))) = 5
   \<and> getWeightForTextNodes (newHtmlLengthService [])
        (Element (js ''A'') [Text (js '' hi '')]) = Inr 4
   \<and> length (trim (textContent (Element (js ''A'') [Text (js '' hi '')]))) = 2"
  by (simp add: eval_defs)

subsection \<open>Collapsible blocks\<close>

text \<open>
  C2 at \<^verbatim>\<open><collapsible>one two</collapsible>\<close>: \<open>getWeightForTextNodes\<close> gives the
  block 2 words times 1000, as the table says, and \<open>computeHtmlLengthInWords\<close> returns 0,
  since the selector never hands the block to it.
\<close>

theorem collapsible_block_not_scored:
  "fst (computeHtmlLengthInWords
          (fakeCollaborators (js ''<collapsible>one two</collapsible>'')
             [Element (js ''COLLAPSIBLE'') [Text (js ''one two'')]])
          (newHtmlLengthService []) (js ''<collapsible>one two</collapsible>'')) = Inr 0
   \<and> getWeightForTextNodes (newHtmlLengthService [])
        (Element (js ''COLLAPSIBLE'') [Text (js ''one two'')]) = Inr 2000"
  by (simp add: eval_defs)

subsection \<open>Lists\<close>

text \<open>
  C3, as the code has it. For \<^verbatim>\<open><ul><li>one two</li><li>three</li></ul>\<close> the text of
  the items counts toward the enclosing list, whose text content is the items' texts put
  together with nothing in between, \<^verbatim>\<open>one twothree\<close>: the result is 2.
\<close>

theorem ul_example_two_words:
  assumes "childNodes (parseFromString env
             (sanitize env (js ''<ul><li>one two</li><li>three</li></ul>''))) = [ulExample]"
  shows "fst (computeHtmlLengthInWords env (newHtmlLengthService logger)
                (js ''<ul><li>one two</li><li>three</li></ul>'')) = Inr 2
         \<and> textContent ulExample = js ''one twothree''"
  using assms
  by (simp add: computeHtmlLengthInWords_def querySelectorAll_def Let_def)
     (simp add: eval_defs ulExample_def)

theorem ul_example_two_words_witness:
  "childNodes (parseFromString
      (fakeCollaborators (js ''<ul><li>one two</li><li>three</li></ul>'') [ulExample])
      (sanitize (fakeCollaborators (js ''<ul><li>one two</li><li>three</li></ul>'') [ulExample])
         (js ''<ul><li>one two</li><li>three</li></ul>''))) = [ulExample]
   \<and> fst (computeHtmlLengthInWords
          (fakeCollaborators (js ''<ul><li>one two</li><li>three</li></ul>'') [ulExample])
          (newHtmlLengthService []) (js ''<ul><li>one two</li><li>three</li></ul>'')) = Inr 2"
  using ul_example_two_words
    [of "fakeCollaborators (js ''<ul><li>one two</li><li>three</li></ul>'') [ulExample]" "[]"]
  by (simp add: fakeCollaborators_def)

text \<open>
  C3 as stated, with the result 3, fails on the same input.
\<close>

theorem ul_example_counterexample:
  "fst (computeHtmlLengthInWords
          (fakeCollaborators (js ''<ul><li>one two</li><li>three</li></ul>'') [ulExample])
          (newHtmlLengthService []) (js ''<ul><li>one two</li><li>three</li></ul>'')) \<noteq> Inr 3"
  by (simp add: eval_defs ulExample_def)

subsection \<open>Paragraphs\<close>

text \<open>
  C4, as the code has it. When the one selected element of a non-empty input is a paragraph
  whose text content is N words separated by single spaces, with N at least 1, the result is
  N times 1.
\<close>

theorem single_paragraph_word_count:
  assumes "htmlString \<noteq> []"
    and "querySelectorAll selector (parseFromString env (sanitize env htmlString))
           = [Element t cs]"
    and "toLowerCase t = js ''p''"
    and "textContent (Element t cs) = joinWords ws"
    and "ws \<noteq> []"
    and "list_all isWord ws"
  shows "fst (computeHtmlLengthInWords env (newHtmlLengthService logger) htmlString)
           = Inr (int (length ws) * 1)"
proof -
  have "split_space (trim (textContent (Element t cs))) = ws"
    using assms(4-6) by (simp add: words_of_joinWords)
  then have "addWeight (newHtmlLengthService logger) (Element t cs) 0 = Inr (int (length ws) * 1)"
    using p_addWeight [OF assms(3), of logger cs 0] by simp
  then show ?thesis
    using assms(1,2) by (simp add: compute_nonempty)
qed

theorem single_paragraph_word_count_witness:
  "js ''<p>one two three</p>'' \<noteq> []
   \<and> querySelectorAll selector
        (parseFromString
           (fakeCollaborators (js ''<p>one two three</p>'')
              [Element (js ''P'') [Text (js ''one two three'')]])
           (sanitize
              (fakeCollaborators (js ''<p>one two three</p>'')
                 [Element (js ''P'') [Text (js ''one two three'')]])
              (js ''<p>one two three</p>'')))
        = [Element (js ''P'') [Text (js ''one two three'')]]
   \<and> toLowerCase (js ''P'') = js ''p''
   \<and> textContent (Element (js ''P'') [Text (js ''one two three'')])
        = joinWords [js ''one'', js ''two'', js ''three'']
   \<and> list_all isWord [js ''one'', js ''two'', js ''three'']
   \<and> fst (computeHtmlLengthInWords
             (fakeCollaborators (js ''<p>one two three</p>'')
                [Element (js ''P'') [Text (js ''one two three'')]])
             (newHtmlLengthService []) (js ''<p>one two three</p>'')) = Inr 3"
proof -
  let ?src = "js ''<p>one two three</p>''"
  let ?p = "Element (js ''P'') [Text (js ''one two three'')]"
  let ?env = "fakeCollaborators ?src [?p]"
  let ?ws = "[js ''one'', js ''two'', js ''three'']"
  have h1: "?src \<noteq> []"
    by (simp add: js_def)
  have h2: "querySelectorAll selector (parseFromString ?env (sanitize ?env ?src)) = [?p]"
    by (simp add: fakeCollaborators_def querySelectorAll_def selector_def js_def
        toLowerCase_def toLowerCaseUnit_def)
  have h3: "toLowerCase (js ''P'') = js ''p''"
    by (simp add: js_def toLowerCase_def toLowerCaseUnit_def)
  have h4: "textContent ?p = joinWords ?ws"
    by (simp add: js_def space_def)
  have h5: "?ws \<noteq> []"
    by simp
  have h6: "list_all isWord ?ws"
    by (simp add: isWord_def js_def isWhiteSpace_def)
  from single_paragraph_word_count [OF h1 h2 h3 h4 h5 h6, of "[]"] h1 h2 h3 h4 h6
  show ?thesis
    by simp
qed

text \<open>
  C4 as stated, for every N, fails at N = 0. The paragraph of \<^verbatim>\<open><p></p>\<close> has the
  text of no words, and the result is 1, not 0 times 1: the split of the empty text gives
  one empty word.
\<close>

theorem empty_paragraph_counterexample:
  "js ''<p></p>'' \<noteq> []
   \<and> querySelectorAll selector
        (parseFromString (fakeCollaborators (js ''<p></p>'') [Element (js ''P'') []])
           (sanitize (fakeCollaborators (js ''<p></p>'') [Element (js ''P'') []])
              (js ''<p></p>'')))
        = [Element (js ''P'') []]
   \<and> toLowerCase (js ''P'') = js ''p''
   \<and> textContent (Element (js ''P'') []) = joinWords []
   \<and> list_all isWord []
   \<and> fst (computeHtmlLengthInWords
             (fakeCollaborators (js ''<p></p>'') [Element (js ''P'') []])
             (newHtmlLengthService []) (js ''<p></p>'')) = Inr 1
   \<and> Inr 1 \<noteq> (Inr (int (length ([] :: jsstring list)) * 1) :: error + int)"
  by (simp add: eval_defs)

subsection \<open>The empty input\<close>

text \<open>
  C5. On the empty string the result is 0 and the logger receives exactly one message,
  the last of its list afterwards; on every other input the logger receives nothing.
\<close>

theorem empty_input_logs_once:
  "fst (computeHtmlLengthInWords env this []) = Inr 0
   \<and> loggerService (snd (computeHtmlLengthInWords env this []))
       = loggerService this @ [js ''Empty string was passed to compute length'']
   \<and> length (loggerService (snd (computeHtmlLengthInWords env this [])))
       = length (loggerService this) + 1
   \<and> (htmlString \<noteq> [] \<longrightarrow>
        loggerService (snd (computeHtmlLengthInWords env this htmlString)) = loggerService this)"
  by (simp add: computeHtmlLengthInWords_def Let_def)

theorem empty_input_logs_once_witness:
  "js ''<p>one two three</p>'' \<noteq> []
   \<and> loggerService (snd (computeHtmlLengthInWords
         (fakeCollaborators (js ''<p>one two three</p>'')
            [Element (js ''P'') [Text (js ''one two three'')]])
         (newHtmlLengthService []) (js ''<p>one two three</p>''))) = []
   \<and> fst (computeHtmlLengthInWords
         (fakeCollaborators (js ''<p>one two three</p>'')
            [Element (js ''P'') [Text (js ''one two three'')]])
         (newHtmlLengthService []) []) = Inr 0
   \<and> length (loggerService (snd (computeHtmlLengthInWords
         (fakeCollaborators (js ''<p>one two three</p>'')
            [Element (js ''P'') [Text (js ''one two three'')]])
         (newHtmlLengthService []) []))) = 1"
  using empty_input_logs_once
    [of "fakeCollaborators (js ''<p>one two three</p>'')
           [Element (js ''P'') [Text (js ''one two three'')]]"
        "newHtmlLengthService []" "js ''<p>one two three</p>''"]
  by (simp add: js_def newService_fields)

subsection \<open>Embeds\<close>

text \<open>
  C6. When the selected elements of a non-empty input are one image embed and one math
  embed, in either order, the result is 0, and each of the two contributes the weight 0 of
  its table entry, whatever its content.
\<close>

theorem image_and_math_score_zero:
  assumes "htmlString \<noteq> []"
    and "querySelectorAll selector (parseFromString env (sanitize env htmlString))
           = [Element t1 cs1, Element t2 cs2]"
    and "(toLowerCase t1 = js ''oppia-noninteractive-image''
            \<and> toLowerCase t2 = js ''oppia-noninteractive-math'')
         \<or> (toLowerCase t1 = js ''oppia-noninteractive-math''
            \<and> toLowerCase t2 = js ''oppia-noninteractive-image'')"
  shows "fst (computeHtmlLengthInWords env (newHtmlLengthService logger) htmlString) = Inr 0
         \<and> getWeightForNonTextNodes (newHtmlLengthService logger) (Element t1 cs1) = Inr 0
         \<and> getWeightForNonTextNodes (newHtmlLengthService logger) (Element t2 cs2) = Inr 0"
proof -
  from assms(3) have
    e1: "toLowerCase t1 = js ''oppia-noninteractive-image''
         \<or> toLowerCase t1 = js ''oppia-noninteractive-math''" and
    e2: "toLowerCase t2 = js ''oppia-noninteractive-image''
         \<or> toLowerCase t2 = js ''oppia-noninteractive-math''"
    by auto
  show ?thesis
    using assms(1,2)
    by (simp add: compute_nonempty embed_addWeight [OF e1] embed_addWeight [OF e2]
        embed_weight [OF e1] embed_weight [OF e2])
qed

theorem image_and_math_score_zero_witness:
  "embedsSource \<noteq> []
   \<and> querySelectorAll selector
        (parseFromString (fakeCollaborators embedsSource embedsExample)
           (sanitize (fakeCollaborators embedsSource embedsExample) embedsSource))
        = [Element (js ''OPPIA-NONINTERACTIVE-IMAGE'') [],
           Element (js ''OPPIA-NONINTERACTIVE-MATH'') []]
   \<and> toLowerCase (js ''OPPIA-NONINTERACTIVE-IMAGE'') = js ''oppia-noninteractive-image''
   \<and> toLowerCase (js ''OPPIA-NONINTERACTIVE-MATH'') = js ''oppia-noninteractive-math''
   \<and> fst (computeHtmlLengthInWords (fakeCollaborators embedsSource embedsExample)
             (newHtmlLengthService []) embedsSource) = Inr 0"
proof -
  let ?env = "fakeCollaborators embedsSource embedsExample"
  have h1: "embedsSource \<noteq> []"
    by (simp add: embedsSource_def js_def)
  have h2: "querySelectorAll selector (parseFromString ?env (sanitize ?env embedsSource))
              = [Element (js ''OPPIA-NONINTERACTIVE-IMAGE'') [],
                 Element (js ''OPPIA-NONINTERACTIVE-MATH'') []]"
    by (simp add: fakeCollaborators_def embedsExample_def querySelectorAll_def selector_def
        js_def toLowerCase_def toLowerCaseUnit_def)
  have h3: "toLowerCase (js ''OPPIA-NONINTERACTIVE-IMAGE'') = js ''oppia-noninteractive-image''"
    by (simp add: js_def toLowerCase_def toLowerCaseUnit_def)
  have h4: "toLowerCase (js ''OPPIA-NONINTERACTIVE-MATH'') = js ''oppia-noninteractive-math''"
    by (simp add: js_def toLowerCase_def toLowerCaseUnit_def)
  from h3 h4 have h5:
    "(toLowerCase (js ''OPPIA-NONINTERACTIVE-IMAGE'') = js ''oppia-noninteractive-image''
        \<and> toLowerCase (js ''OPPIA-NONINTERACTIVE-MATH'') = js ''oppia-noninteractive-math'')
     \<or> (toLowerCase (js ''OPPIA-NONINTERACTIVE-IMAGE'') = js ''oppia-noninteractive-math''
        \<and> toLowerCase (js ''OPPIA-NONINTERACTIVE-MATH'') = js ''oppia-noninteractive-image'')"
    by blast
  from image_and_math_score_zero [OF h1 h2 h5, of "[]"] h1 h2 h3 h4
  show ?thesis
    by blast
qed

subsection \<open>The result as a number\<close>

text \<open>
  C7. For every input, and whatever the sanitizer and the parser give, the service with
  the tables of its initialisers returns a number, and the number is a non-negative integer.
  (Weights are integers here; a JavaScript number holds them exactly up to \<open>2 ^ 53\<close>.)
\<close>

theorem result_is_nonnegative:
  "\<exists>n. fst (computeHtmlLengthInWords env (newHtmlLengthService logger) htmlString) = Inr n
        \<and> 0 \<le> n"
proof (cases "htmlString = []")
  case True
  then show ?thesis
    by (simp add: computeHtmlLengthInWords_def)
next
  case False
  let ?tagList = "querySelectorAll selector (parseFromString env (sanitize env htmlString))"
  obtain n where n: "sumWeights (newHtmlLengthService logger) ?tagList 0 = Inr n"
    using sumWeights_returns by blast
  have "0 \<le> n"
    using newService_weights_nonneg [of logger] _ n by (rule sumWeights_nonneg) simp
  with n False show ?thesis
    by (simp add: compute_nonempty)
qed

text \<open>
  C8. With any tables: where the membership check on a table has passed for an element's
  lower-cased tag name, the lookup in that table finds an entry and the helper returns a
  weight; so \<open>computeHtmlLengthInWords\<close>, which calls the helpers under these checks only,
  never ends in the TypeError of a missing entry.
\<close>

theorem guarded_lookup_succeeds:
  "(list_ex (\<lambda>item. fst item = toLowerCase (tagName tag)) (textTagsWithWeight this) \<longrightarrow>
      (\<exists>x. find (\<lambda>x. fst x = toLowerCase (tagName tag)) (textTagsWithWeight this) = Some x)
      \<and> (\<exists>w. getWeightForTextNodes this tag = Inr w))
   \<and> (list_ex (\<lambda>item. fst item = toLowerCase (tagName tag)) (nonTextTagsWithWeight this) \<longrightarrow>
      (\<exists>x. find (\<lambda>x. fst x = toLowerCase (tagName tag)) (nonTextTagsWithWeight this) = Some x)
      \<and> (\<exists>w. getWeightForNonTextNodes this tag = Inr w))
   \<and> (\<exists>n. fst (computeHtmlLengthInWords env this htmlString) = Inr n)"
proof -
  let ?ltag = "toLowerCase (tagName tag)"
  have "\<exists>n. fst (computeHtmlLengthInWords env this htmlString) = Inr n"
    using sumWeights_returns by (simp add: computeHtmlLengthInWords_def Let_def)
  moreover
  have "\<exists>x. find (\<lambda>x. fst x = ?ltag) tbl = Some x"
    if "list_ex (\<lambda>item. fst item = ?ltag) tbl" for tbl :: "(jsstring \<times> int) list"
    using find_guarded [OF that] by blast
  ultimately show ?thesis
    using text_lookup_guarded nontext_lookup_guarded by blast
qed

theorem guarded_lookup_succeeds_witness:
  "list_ex (\<lambda>item. fst item = toLowerCase (tagName (Element (js ''P'') [Text (js ''one two'')])))
     (textTagsWithWeight (newHtmlLengthService []))
   \<and> getWeightForTextNodes (newHtmlLengthService [])
        (Element (js ''P'') [Text (js ''one two'')]) = Inr 2
   \<and> list_ex (\<lambda>item. fst item
                 = toLowerCase (tagName (Element (js ''OPPIA-NONINTERACTIVE-MATH'') [])))
       (nonTextTagsWithWeight (newHtmlLengthService []))
   \<and> getWeightForNonTextNodes (newHtmlLengthService [])
        (Element (js ''OPPIA-NONINTERACTIVE-MATH'') []) = Inr 0"
proof -
  let ?svc = "newHtmlLengthService []"
  let ?p = "Element (js ''P'') [Text (js ''one two'')]"
  let ?m = "Element (js ''OPPIA-NONINTERACTIVE-MATH'') []"
  have g1: "list_ex (\<lambda>item. fst item = toLowerCase (tagName ?p)) (textTagsWithWeight ?svc)"
    by (simp add: newService_fields) (simp add: js_def toLowerCase_def toLowerCaseUnit_def)
  have g2: "list_ex (\<lambda>item. fst item = toLowerCase (tagName ?m)) (nonTextTagsWithWeight ?svc)"
    by (simp add: newService_fields) (simp add: js_def toLowerCase_def toLowerCaseUnit_def)
  from g1 guarded_lookup_succeeds [of ?p ?svc] obtain w where
    w: "getWeightForTextNodes ?svc ?p = Inr w"
    by blast
  from g2 guarded_lookup_succeeds [of ?m ?svc] obtain v where
    v: "getWeightForNonTextNodes ?svc ?m = Inr v"
    by blast
  have "w = 2"
    using w by (simp add: eval_defs)
  moreover have "v = 0"
    using v by (simp add: eval_defs)
  ultimately show ?thesis
    using g1 g2 w v by simp
qed

subsection \<open>Repeated calls\<close>

text \<open>
  C9. A second call on the same input, on the service as the first call left it, returns
  what the first returned; a call leaves both weight tables as they were; and the result
  does not depend on what the logger holds.
\<close>

theorem compute_repeatable:
  "fst (computeHtmlLengthInWords env (snd (computeHtmlLengthInWords env this htmlString))
          htmlString)
     = fst (computeHtmlLengthInWords env this htmlString)
   \<and> textTagsWithWeight (snd (computeHtmlLengthInWords env this htmlString))
       = textTagsWithWeight this
   \<and> nonTextTagsWithWeight (snd (computeHtmlLengthInWords env this htmlString))
       = nonTextTagsWithWeight this
   \<and> fst (computeHtmlLengthInWords env (this\<lparr>loggerService := l\<rparr>) htmlString)
       = fst (computeHtmlLengthInWords env this htmlString)"
  by (simp add: computeHtmlLengthInWords_def Let_def sumWeights_logger)

subsection \<open>Elements without text\<close>

text \<open>
  C10. For an element that is not an anchor and whose tag has the multiplier \<open>m\<close> in the
  table: when its text content is empty or white space only, \<open>getWeightForTextNodes\<close>
  returns \<open>1 * m\<close>; and in every case it returns \<open>n * m\<close> for a word count \<open>n\<close> of at
  least 1.
\<close>

theorem empty_text_counts_one_word:
  assumes "toLowerCase t \<noteq> js ''a''"
    and "find (\<lambda>x. fst x = toLowerCase t) (textTagsWithWeight this) = Some (k, m)"
  shows "(list_all isWhiteSpace (textContent (Element t cs)) \<longrightarrow>
            getWeightForTextNodes this (Element t cs) = Inr (1 * m))
         \<and> (\<exists>n. 1 \<le> n \<and> getWeightForTextNodes this (Element t cs) = Inr (n * m))"
proof -
  let ?n = "int (length (split_space (trim (textContent (Element t cs)))))"
  have w: "getWeightForTextNodes this (Element t cs) = Inr (?n * m)"
    using assms by (simp add: getWeightForTextNodes_def Let_def)
  have "1 \<le> ?n"
    using length_split_space [of "trim (textContent (Element t cs))"] by simp
  with w have "\<exists>n. 1 \<le> n \<and> getWeightForTextNodes this (Element t cs) = Inr (n * m)"
    by blast
  moreover
  have "list_all isWhiteSpace (textContent (Element t cs)) \<longrightarrow>
          getWeightForTextNodes this (Element t cs) = Inr (1 * m)"
    using w by (simp add: trim_whitespace)
  ultimately show ?thesis
    by blast
qed

theorem empty_text_counts_one_word_witness:
  "toLowerCase (js ''P'') \<noteq> js ''a''
   \<and> find (\<lambda>x. fst x = toLowerCase (js ''P'')) (textTagsWithWeight (newHtmlLengthService []))
       = Some (js ''p'', 1)
   \<and> list_all isWhiteSpace (textContent (Element (js ''P'') []))
   \<and> getWeightForTextNodes (newHtmlLengthService []) (Element (js ''P'') []) = Inr 1
   \<and> list_all isWhiteSpace (textContent (Element (js ''P'') [Text [0x20, 0x09, 0x0A]]))
   \<and> getWeightForTextNodes (newHtmlLengthService [])
        (Element (js ''P'') [Text [0x20, 0x09, 0x0A]]) = Inr 1"
proof -
  have h1: "toLowerCase (js ''P'') \<noteq> js ''a''"
    by (simp add: js_def toLowerCase_def toLowerCaseUnit_def)
  have h2: "find (\<lambda>x. fst x = toLowerCase (js ''P''))
              (textTagsWithWeight (newHtmlLengthService [])) = Some (js ''p'', 1)"
    by (simp add: newService_fields) (simp add: js_def toLowerCase_def toLowerCaseUnit_def)
  have h3: "list_all isWhiteSpace (textContent (Element (js ''P'') []))"
    by simp
  have h4: "list_all isWhiteSpace (textContent (Element (js ''P'') [Text [0x20, 0x09, 0x0A]]))"
    by (simp add: isWhiteSpace_def)
  from empty_text_counts_one_word [OF h1 h2, of "[]"]
    empty_text_counts_one_word [OF h1 h2, of "[Text [0x20, 0x09, 0x0A]]"] h1 h2 h3 h4
  show ?thesis
    by simp
qed

end
